theory Spec2Isabelle
  imports Main "HOL-Library.Sublist" "HOL-Library.AList"
begin

section \<open>JavaScript values used by the tool\<close>

text \<open>
  JavaScript strings are modelled as HOL strings, one \<^typ>\<open>char\<close> per code unit
  (code units below 256). A value that may be \<open>undefined\<close> is an \<^typ>\<open>'a option\<close>.
  Plain objects used as dictionaries are modelled by their own properties only.
  A thrown exception is a value of type \<open>error\<close>; a function that may throw returns
  \<open>error + 'a\<close>.
\<close>

datatype error = Error string | AssertionError string | TypeError

definition lineTerminator :: "char \<Rightarrow> bool" where
  "lineTerminator c = (c = CHR 0x0A \<or> c = CHR 0x0D)"

text \<open>\<open>x || y\<close> on strings: the empty string and \<open>undefined\<close> are falsy.\<close>

definition truthy :: "string option \<Rightarrow> bool" where
  "truthy v = (case v of None \<Rightarrow> False | Some s \<Rightarrow> s \<noteq> [])"

section \<open>String operations\<close>

definition startsWith :: "string \<Rightarrow> string \<Rightarrow> bool" where
  "startsWith text p = prefix p text"

definition endsWith :: "string \<Rightarrow> string \<Rightarrow> bool" where
  "endsWith text p = prefix (rev p) (rev text)"

text \<open>\<open>text.substr(start, length)\<close> for a start inside the string; a negative length gives the empty string.\<close>

definition substr :: "string \<Rightarrow> nat \<Rightarrow> int \<Rightarrow> string" where
  "substr text start len = take (nat len) (drop start text)"

text \<open>\<open>text.indexOf(p) > -1\<close>\<close>

fun str_includes :: "string \<Rightarrow> string \<Rightarrow> bool" where
  "str_includes [] p = (p = [])"
| "str_includes (c # cs) p = (prefix p (c # cs) \<or> str_includes cs p)"

text \<open>Characters removed by \<open>trim\<close> and skipped by \<open>parseInt\<close>.\<close>

definition whiteSpace :: "char \<Rightarrow> bool" where
  "whiteSpace c =
     (c \<in> set [CHR 0x09, CHR 0x0A, CHR 0x0B, CHR 0x0C, CHR 0x0D, CHR 0x20, CHR 0xA0])"

definition trim :: "string \<Rightarrow> string" where
  "trim text = rev (dropWhile whiteSpace (rev (dropWhile whiteSpace text)))"

definition lowerLetter :: "char \<Rightarrow> bool" where
  "lowerLetter c = (c \<in> set ''abcdefghijklmnopqrstuvwxyz'')"

definition upperLetter :: "char \<Rightarrow> bool" where
  "upperLetter c = (c \<in> set ''ABCDEFGHIJKLMNOPQRSTUVWXYZ'')"

definition letter :: "char \<Rightarrow> bool" where
  "letter c = (lowerLetter c \<or> upperLetter c)"

definition digit :: "char \<Rightarrow> bool" where
  "digit c = (c \<in> set ''0123456789'')"

text \<open>\<open>\w\<close> of a regular expression.\<close>

definition wordChar :: "char \<Rightarrow> bool" where
  "wordChar c = (letter c \<or> digit c \<or> c = CHR ''_'')"

text \<open>\<open>b.toUpperCase()\<close> is applied to a letter \<open>a\<close> to \<open>z\<close> only.\<close>

definition toUpperCase_char :: "char \<Rightarrow> char" where
  "toUpperCase_char c =
     (case map_of (zip ''abcdefghijklmnopqrstuvwxyz'' ''ABCDEFGHIJKLMNOPQRSTUVWXYZ'') c of
        Some u \<Rightarrow> u
      | None \<Rightarrow> c)"



text \<open>A non-negative integer in a template literal, \<open>`${i}`\<close>: its decimal digits.\<close>

definition digit_char :: "nat \<Rightarrow> char" where
  "digit_char n = ''0123456789'' ! n"

fun dec :: "nat \<Rightarrow> string" where
  "dec n = (if n < 10 then [digit_char n] else dec (n div 10) @ [digit_char (n mod 10)])"

declare dec.simps [simp del]

definition digit_value :: "char \<Rightarrow> nat option" where
  "digit_value c =
     map_of [(CHR ''0'', 0), (CHR ''1'', 1), (CHR ''2'', 2), (CHR ''3'', 3), (CHR ''4'', 4),
             (CHR ''5'', 5), (CHR ''6'', 6), (CHR ''7'', 7), (CHR ''8'', 8), (CHR ''9'', 9),
             (CHR ''a'', 10), (CHR ''b'', 11), (CHR ''c'', 12), (CHR ''d'', 13), (CHR ''e'', 14),
             (CHR ''f'', 15), (CHR ''A'', 10), (CHR ''B'', 11), (CHR ''C'', 12), (CHR ''D'', 13),
             (CHR ''E'', 14), (CHR ''F'', 15)] c"

definition radix_digit :: "nat \<Rightarrow> char \<Rightarrow> bool" where
  "radix_digit radix c = (case digit_value c of None \<Rightarrow> False | Some d \<Rightarrow> d < radix)"

definition digits_value :: "nat \<Rightarrow> string \<Rightarrow> nat" where
  "digits_value radix ds = foldl (\<lambda>acc c. acc * radix + the (digit_value c)) 0 ds"

text \<open>
  \<open>Number.parseInt(value)\<close>: leading white space, a sign, a \<open>0x\<close> prefix for radix 16,
  then the longest run of digits; \<open>None\<close> is \<open>NaN\<close>.
\<close>

definition parseInt :: "string \<Rightarrow> int option" where
  "parseInt s =
     (let s1 = dropWhile whiteSpace s;
          negative = (s1 \<noteq> [] \<and> hd s1 = CHR ''-'');
          s2 = (if s1 \<noteq> [] \<and> (hd s1 = CHR ''-'' \<or> hd s1 = CHR ''+'') then tl s1 else s1);
          hex = (prefix ''0x'' s2 \<or> prefix ''0X'' s2);
          radix = (if hex then 16 else 10);
          s3 = (if hex then drop 2 s2 else s2);
          ds = takeWhile (radix_digit radix) s3
      in if ds = [] then None
         else Some (if negative then - int (digits_value radix ds)
                    else int (digits_value radix ds)))"

section \<open>command-line.ts\<close>

type_synonym switches = "string \<Rightarrow> string option list option"


record CommandLine =
  inputs :: "string list"
  switches :: switches
  folder_cache :: "string option"


definition noTranslate :: "CommandLine \<Rightarrow> bool" where
  "noTranslate cli = (switches cli ''no-translate'' \<noteq> None)"

definition addLanguages :: "CommandLine \<Rightarrow> string list" where
  "addLanguages cli =
     (case switches cli ''add-language'' of
        None \<Rightarrow> []
      | Some vs \<Rightarrow> concat (map (\<lambda>v. if truthy v then [the v] else []) vs))"









section \<open>Objects and JSON\<close>

text \<open>
  An object used as a dictionary is the list of its own properties in the order in which
  \<open>for ... in\<close> and \<open>JSON.stringify\<close> enumerate them: array indices first, in ascending
  order, then the other keys in the order of their creation. Assigning to an existing
  property keeps its place.
\<close>

definition arrayIndex :: "string \<Rightarrow> bool" where
  "arrayIndex k =
     (k \<noteq> [] \<and> list_all digit k \<and> (k = ''0'' \<or> hd k \<noteq> CHR ''0'') \<and>
      digits_value 10 k < 4294967295)"

fun obj_insert :: "string \<Rightarrow> 'a \<Rightarrow> (string \<times> 'a) list \<Rightarrow> (string \<times> 'a) list" where
  "obj_insert k v [] = [(k, v)]"
| "obj_insert k v ((k', v') # ob) =
     (if arrayIndex k \<and> (\<not> arrayIndex k' \<or> digits_value 10 k < digits_value 10 k')
      then (k, v) # (k', v') # ob
      else (k', v') # obj_insert k v ob)"

definition obj_set :: "string \<Rightarrow> 'a \<Rightarrow> (string \<times> 'a) list \<Rightarrow> (string \<times> 'a) list" where
  "obj_set k v ob = (if k \<in> fst ` set ob then AList.update k v ob else obj_insert k v ob)"

text \<open>
  \<open>JSON.stringify\<close> of a string, and \<open>JSON.stringify(json, null, 2)\<close> of an object whose
  values are strings.
\<close>

definition hex_char :: "nat \<Rightarrow> char" where
  "hex_char n = ''0123456789abcdef'' ! n"

definition JSON_escape :: "char \<Rightarrow> string" where
  "JSON_escape c =
     (if c = CHR 0x22 then [CHR 0x5C, CHR 0x22]
      else if c = CHR 0x5C then [CHR 0x5C, CHR 0x5C]
      else if c = CHR 0x08 then [CHR 0x5C, CHR ''b'']
      else if c = CHR 0x0C then [CHR 0x5C, CHR ''f'']
      else if c = CHR 0x0A then [CHR 0x5C, CHR ''n'']
      else if c = CHR 0x0D then [CHR 0x5C, CHR ''r'']
      else if c = CHR 0x09 then [CHR 0x5C, CHR ''t'']
      else if (of_char c :: nat) < 32
      then [CHR 0x5C, CHR ''u'', CHR ''0'', CHR ''0'',
            hex_char ((of_char c :: nat) div 16), hex_char ((of_char c :: nat) mod 16)]
      else [c])"

definition JSON_quote :: "string \<Rightarrow> string" where
  "JSON_quote text = [CHR 0x22] @ concat (map JSON_escape text) @ [CHR 0x22]"

fun join_lines :: "string list \<Rightarrow> string" where
  "join_lines [] = []"
| "join_lines [l] = l"
| "join_lines (l # m # ls) = l @ [CHR '','', CHR 0x0A] @ join_lines (m # ls)"

definition JSON_stringify :: "(string \<times> string) list \<Rightarrow> string" where
  "JSON_stringify ob =
     (if ob = [] then ''{}''
      else ''{'' @ [CHR 0x0A] @
           join_lines (map (\<lambda>(k, v). ''  '' @ JSON_quote k @ '': '' @ JSON_quote v) ob) @
           [CHR 0x0A] @ ''}'')"

section \<open>main.ts: quoting\<close>



definition unquote :: "string \<Rightarrow> string" where
  "unquote text =
     (if startsWith text [CHR 0x60] \<and> endsWith text [CHR 0x60]
      then substr text 1 (int (length text) - 2)
      else text)"

section \<open>main.ts: Translate\<close>

text \<open>
  The answer of \<open>azure.translator.translate([language], [{ text: t }])\<close>: the call throws
  (also when reading \<open>result[0]?.translations?.[0].text\<close> throws), or that expression has a
  value; \<open>undefined\<close> and the empty string are both falsy there and are both \<open>Text []\<close>.
\<close>

datatype response = Throws | Text string

type_synonym translator = "string \<Rightarrow> string \<Rightarrow> response"

text \<open>\<open>/(\$\{.*?\})/\<close> at the start of a string: the matched item and what follows it.\<close>

fun close_brace :: "string \<Rightarrow> (string \<times> string) option" where
  "close_brace [] = None"
| "close_brace (c # cs) =
     (if c = CHR ''}'' then Some ([], cs)
      else if lineTerminator c then None
      else map_option (\<lambda>(body, rest). (c # body, rest)) (close_brace cs))"

fun exec_span :: "string \<Rightarrow> (string \<times> string) option" where
  "exec_span (a # b # cs) =
     (if a = CHR ''$'' \<and> b = CHR ''{''
      then map_option (\<lambda>(body, rest). (''${'' @ body @ ''}'', rest)) (close_brace cs)
      else None)"
| "exec_span s = None"

lemma close_brace_length: "close_brace s = Some (body, rest) \<Longrightarrow> length rest < length s"
  by (induction s arbitrary: body) (auto split: if_splits)

lemma exec_span_length: "exec_span s = Some (item, rest) \<Longrightarrow> length rest < length s"
  by (cases s rule: exec_span.cases) (auto split: if_splits dest: close_brace_length)

text \<open>
  \<open>text.replace(/(\$\{.*?\})/g, (item) => { placeholders[i] = item; return `77${i++}77`; })\<close>
  with the counter starting at \<open>i\<close>: the new text and the placeholders recorded.
\<close>

function protect :: "nat \<Rightarrow> string \<Rightarrow> string \<times> string list" where
  "protect i [] = ([], [])"
| "protect i (c # cs) =
     (case exec_span (c # cs) of
        Some (item, rest) \<Rightarrow>
          (let (t, placeholders) = protect (Suc i) rest
           in (''77'' @ dec i @ ''77'' @ t, item # placeholders))
      | None \<Rightarrow>
          (let (t, placeholders) = protect i cs in (c # t, placeholders)))"
  by pat_completeness auto
termination
  by (relation "measure (\<lambda>(i, s). length s)") (auto dest: exec_span_length)

text \<open>\<open>placeholders[n]\<close> as the result of a replace callback: \<open>undefined\<close> becomes the text \<open>undefined\<close>.\<close>

definition placeholder_at :: "string list \<Rightarrow> int option \<Rightarrow> string" where
  "placeholder_at placeholders n =
     (case n of
        None \<Rightarrow> ''undefined''
      | Some k \<Rightarrow> if 0 \<le> k \<and> nat k < length placeholders then placeholders ! nat k
                  else ''undefined'')"

text \<open>\<open>/77(.*?)77/\<close> at the start of a string: the captured value and what follows the match.\<close>

fun lazy77 :: "string \<Rightarrow> (string \<times> string) option" where
  "lazy77 [] = None"
| "lazy77 (c # cs) =
     (if prefix ''77'' (c # cs) then Some ([], drop 2 (c # cs))
      else if lineTerminator c then None
      else map_option (\<lambda>(v, rest). (c # v, rest)) (lazy77 cs))"

definition exec_sentinel :: "string \<Rightarrow> (string \<times> string) option" where
  "exec_sentinel s = (if prefix ''77'' s then lazy77 (drop 2 s) else None)"

lemma lazy77_length: "lazy77 s = Some (v, rest) \<Longrightarrow> length rest < length s"
  by (induction s arbitrary: v) (auto split: if_splits)

lemma exec_sentinel_length: "exec_sentinel s = Some (v, rest) \<Longrightarrow> length rest < length s"
  by (auto simp: exec_sentinel_def split: if_splits dest: lazy77_length)

text \<open>
  \<open>translation.replace(/77(.*?)77/g, (item, value) => placeholders[Number.parseInt(value)])\<close>
\<close>

function restore :: "string list \<Rightarrow> string \<Rightarrow> string" where
  "restore placeholders [] = []"
| "restore placeholders (c # cs) =
     (case exec_sentinel (c # cs) of
        Some (v, rest) \<Rightarrow> placeholder_at placeholders (parseInt v) @ restore placeholders rest
      | None \<Rightarrow> c # restore placeholders cs)"
  by pat_completeness auto
termination
  by (relation "measure (\<lambda>(p, s). length s)") (auto dest: exec_sentinel_length)

text \<open>
  \<open>Translate(text, language)\<close> returns the pair \<open>[translation, comment]\<close>. \<open>azure\<close> is
  \<open>None\<close> when no client was created; reading \<open>azure.translator\<close> then throws inside the
  \<open>try\<close> block, like a failing call.
\<close>

definition Translate :: "translator option \<Rightarrow> string \<Rightarrow> string \<Rightarrow> string \<times> string" where
  "Translate azure text language =
     (let (t, placeholders) = protect 0 text
      in case azure of
           None \<Rightarrow> ([], [])
         | Some translate \<Rightarrow>
             (case translate language t of
                Throws \<Rightarrow> ([], [])
              | Text r \<Rightarrow>
                  (let translation = (if r \<noteq> [] then r else text)
                   in (if placeholders \<noteq> [] then restore placeholders translation
                       else translation,
                       ''Machine translated using Azure Translator via '' @ [CHR 0x27] @
                       ''translate-strings'' @ [CHR 0x27] @ '' tool''))))"


section \<open>main.ts: ScanSources\<close>

text \<open>
  The syntax tree as the scanner reads it through ts-morph. A source file is given by its
  path, its functions (name and the full texts of the JSDoc blocks) and the nodes that
  \<open>forEachDescendant\<close> visits, in the order of the visit. Of a tagged template the scanner
  reads the first declaration of the symbol of the tag's type (\<open>None\<close> when there is no
  symbol or no declaration), the text of the node's type, the texts of the trailing
  comments and the template. A span of a template expression is its expression and the
  text of the literal that follows it.
\<close>

datatype tag_decl = FunctionDeclaration "string option" string | OtherDeclaration

text \<open>The symbol of an identifier: absent, or present with the type texts of its declarations.\<close>

datatype symbol = NoSymbol | Symbol "string list"

datatype content =
    Identifier string symbol "string list"
  | Expression string "string list"
  | OtherContent

datatype template =
    NoSubstitutionTemplateLiteral string
  | TemplateExpression string "(content \<times> string) list"

datatype node =
    TaggedTemplateExpression "tag_decl option" string "string list" template
  | OtherNode

record sourceFile =
  filePath :: string
  getFunctions :: "(string option \<times> string list) list"
  descendants :: "node list"

text \<open>
  The fields \<open>name\<close> and \<open>type\<close> of a parameter are \<open>param_name\<close> and \<open>param_type\<close>
  here, and the field \<open>notes\<close> of a record is \<open>notesMap\<close>, a map in the order of
  insertion.
\<close>

record templateStringParameter =
  param_name :: string
  param_type :: string
  originalName :: string

record templateStringInfo =
  literal :: string
  params :: "templateStringParameter list"
  notesMap :: "(string \<times> string) list"
  specifiedKey :: string

type_synonym string_table = "(string \<times> templateStringInfo) list"

text \<open>
  \<open>comment.getText().replace(/^\/*\**/g, '').replace(/\**\/*$/g, '').trim()\<close>: leading
  slashes then stars, and trailing stars then slashes, are removed.
\<close>

definition strip_comment :: "string \<Rightarrow> string" where
  "strip_comment text =
     (let a = dropWhile (\<lambda>c. c = CHR ''*'') (dropWhile (\<lambda>c. c = CHR ''/'') text);
          b = rev (dropWhile (\<lambda>c. c = CHR ''*'') (dropWhile (\<lambda>c. c = CHR ''/'') (rev a)))
      in trim b)"

definition getCommentForSub :: "string list \<Rightarrow> string option" where
  "getCommentForSub comments = find (\<lambda>t. t \<noteq> []) (map strip_comment comments)"

text \<open>
  \<open>const [full, key, text] = note.split(/^(@\w+)/)\<close>: when the note begins with \<open>@\<close> and
  at least one word character, the parts are the empty string, the tag and the rest;
  otherwise the note alone.
\<close>

definition split_note :: "string \<Rightarrow> string \<times> string option \<times> string option" where
  "split_note note =
     (case note of
        [] \<Rightarrow> ([], None, None)
      | c # r \<Rightarrow>
          if c = CHR ''@'' \<and> takeWhile wordChar r \<noteq> []
          then ([], Some (c # takeWhile wordChar r), Some (dropWhile wordChar r))
          else (note, None, None))"

text \<open>The body of the loop over the trailing comments of a call, on \<open>notes\<close> and \<open>specifiedKey\<close>.\<close>

definition note_step ::
  "(string \<times> string) list \<times> string \<Rightarrow> string \<Rightarrow> (string \<times> string) list \<times> string" where
  "note_step st comment =
     (let (full, key, text) = split_note (strip_comment comment)
      in (if full \<noteq> [] then AList.update ''full'' full (fst st)
          else if truthy text then AList.update ''full'' (the text) (fst st)
          else fst st,
          if truthy key then the key else snd st))"

text \<open>
  \<open>track(key, literal, notes, params, specifiedKey)\<close> on the table \<open>strings\<close>: a key that
  is present only receives the notes, each set with \<open>Map.set\<close>.
\<close>

definition track ::
  "string \<Rightarrow> string \<Rightarrow> (string \<times> string) list \<Rightarrow> templateStringParameter list \<Rightarrow> string \<Rightarrow>
   string_table \<Rightarrow> string_table" where
  "track key lit nts ps sk strings =
     (let k = unquote key
      in case map_of strings k of
           Some e \<Rightarrow>
             obj_set k (e\<lparr>notesMap := foldl (\<lambda>m (nk, nv). AList.update nk nv m) (notesMap e) nts\<rparr>)
               strings
         | None \<Rightarrow>
             obj_set k \<lparr>literal = lit, params = ps, notesMap = nts, specifiedKey = sk\<rparr> strings)"

text \<open>
  The loop over the template spans, on \<open>key\<close>, \<open>literal\<close>, \<open>parameters\<close>, \<open>notes\<close> and
  \<open>parameterNumber\<close>. \<open>json\<close> tells whether the switch \<open>json\<close> is set; \<open>nodeType\<close> is the
  text of \<open>node.getType()\<close>. An identifier whose symbol has no declaration makes
  \<open>declaration?.[0].getType()\<close> throw.
\<close>

type_synonym span_state =
  "string \<times> string \<times> templateStringParameter list \<times> (string \<times> string) list \<times> nat"

definition add_comment ::
  "string \<Rightarrow> string list \<Rightarrow> (string \<times> string) list \<Rightarrow> (string \<times> string) list" where
  "add_comment nm comments nts =
     (case getCommentForSub comments of Some comment \<Rightarrow> AList.update nm comment nts | None \<Rightarrow> nts)"

fun scan_spans :: "bool \<Rightarrow> string \<Rightarrow> (content \<times> string) list \<Rightarrow> span_state \<Rightarrow> error + span_state" where
  "scan_spans jsonSwitch nodeType [] st = Inr st"
| "scan_spans jsonSwitch nodeType ((Identifier ctext (Symbol []) comments, text) # spans) st = Inl TypeError"
| "scan_spans jsonSwitch nodeType ((Identifier ctext smb comments, text) # spans) (key, lit, ps, nts, n) =
     (let ty = (case smb of Symbol (t # ts) \<Rightarrow> if t \<noteq> [] then t else ''any'' | _ \<Rightarrow> ''any'');
          nm = (if jsonSwitch then ''p'' @ dec n else ctext)
      in scan_spans jsonSwitch nodeType spans
           (key @ dec n @ text, lit @ nm @ text,
            ps @ [\<lparr>param_name = nm, param_type = ty, originalName = []\<rparr>],
            add_comment nm comments nts, Suc n))"
| "scan_spans jsonSwitch nodeType ((Expression ctext comments, text) # spans) (key, lit, ps, nts, n) =
     (let nm = ''p'' @ dec n
      in scan_spans jsonSwitch nodeType spans
           (key @ dec n @ text, lit @ nm @ text,
            ps @ [\<lparr>param_name = nm, param_type = nodeType, originalName = ctext\<rparr>],
            add_comment nm comments nts, Suc n))"
| "scan_spans jsonSwitch nodeType ((OtherContent, text) # spans) (key, lit, ps, nts, n) =
     scan_spans jsonSwitch nodeType spans (key @ dec n @ text, lit, ps, nts, Suc n)"

text \<open>
  The callback of \<open>forEachDescendant\<close>, with its \<open>try\<close>/\<open>catch\<close>: \<open>iFn\<close> is the name of
  the translator function and \<open>i18nSourceFile\<close> the file that declares it, if one was found.
\<close>

definition visit :: "bool \<Rightarrow> string \<Rightarrow> string option \<Rightarrow> string_table \<Rightarrow> node \<Rightarrow> string_table" where
  "visit jsonSwitch iFn i18nSourceFile strings nd =
     (case nd of
        OtherNode \<Rightarrow> strings
      | TaggedTemplateExpression decl nodeType comments tmpl \<Rightarrow>
          (case decl of
             Some (FunctionDeclaration dname dfile) \<Rightarrow>
               if dname = Some iFn \<and>
                  (case i18nSourceFile of Some f \<Rightarrow> dfile = f | None \<Rightarrow> True)
               then
                 (let (nts, sk) = foldl note_step ([], []) comments
                  in case tmpl of
                       NoSubstitutionTemplateLiteral text \<Rightarrow> track text text nts [] sk strings
                     | TemplateExpression head spans \<Rightarrow>
                         (case scan_spans jsonSwitch nodeType spans (head, head, [], nts, 0) of
                            Inl e \<Rightarrow> strings
                          | Inr (key, lit, ps, nts', n) \<Rightarrow> track key lit nts' ps sk strings))
               else strings
           | _ \<Rightarrow> strings))"

text \<open>The first function with a JSDoc block that contains \<open>@translator\<close>: its file and its name.\<close>

definition translator_of :: "sourceFile \<Rightarrow> string option option" where
  "translator_of sf =
     map_option fst (find (\<lambda>(fname, jsdocs). list_ex (\<lambda>d. str_includes d ''@translator'') jsdocs)
                       (getFunctions sf))"

fun find_translator :: "sourceFile list \<Rightarrow> (string \<times> string option) option" where
  "find_translator [] = None"
| "find_translator (sf # sfs) =
     (case translator_of sf of
        Some fname \<Rightarrow> Some (filePath sf, fname)
      | None \<Rightarrow> find_translator sfs)"

text \<open>
  \<open>ScanSources\<close>: \<open>project\<close> are all the source files of the project, \<open>sourceFiles\<close> the ones
  to scan. The result is the table \<open>strings\<close> and whether the warning about a missing
  translator function was printed; \<open>fail\<close> throws when the translator function has no name.
\<close>

definition scan_files :: "bool \<Rightarrow> string \<Rightarrow> string option \<Rightarrow> sourceFile list \<Rightarrow> string_table" where
  "scan_files jsonSwitch iFn i18nSourceFile sourceFiles =
     foldl (\<lambda>strings sf. foldl (visit jsonSwitch iFn i18nSourceFile) strings (descendants sf))
       [] sourceFiles"

definition ScanSources ::
  "bool \<Rightarrow> sourceFile list \<Rightarrow> sourceFile list \<Rightarrow> error + (bool \<times> string_table)" where
  "ScanSources jsonSwitch project sourceFiles =
     (case find_translator project of
        Some (file, fname) \<Rightarrow>
          if truthy fname then Inr (False, scan_files jsonSwitch (the fname) (Some file) sourceFiles)
          else Inl (AssertionError ''Can not get function name of @translator function'')
      | None \<Rightarrow> Inr (True, scan_files jsonSwitch ''i'' None sourceFiles))"

section \<open>main.ts: GenerateJSON\<close>

text \<open>
  The file system maps a path to the text of the file. \<open>JSON.parse\<close> is a parameter of the
  model (\<open>None\<close> when it throws); \<open>path.join\<close> puts a slash between the folder and the
  file name. A language document is read into its file name, its text and its object;
  a missing file, or one that cannot be parsed, gives the empty object.
\<close>

type_synonym document = "(string \<times> string) list"

type_synonym file_system = "string \<Rightarrow> string option"

record language_document =
  filename :: string
  content :: string
  json :: document

definition join :: "string \<Rightarrow> string \<Rightarrow> string" where
  "join dir file = dir @ ''/'' @ file"

definition read_document ::
  "(string \<Rightarrow> document option) \<Rightarrow> file_system \<Rightarrow> string \<Rightarrow> language_document" where
  "read_document parse fs file =
     (case fs file of
        None \<Rightarrow> \<lparr>filename = file, content = [], json = []\<rparr>
      | Some text \<Rightarrow>
          \<lparr>filename = file, content = text,
           json = (case parse text of None \<Rightarrow> [] | Some ob \<Rightarrow> ob)\<rparr>)"

text \<open>The map \<open>languages\<close>, filled with \<open>languages.set(each, ...)\<close> for each added language.\<close>

definition read_languages ::
  "(string \<Rightarrow> document option) \<Rightarrow> file_system \<Rightarrow> string \<Rightarrow> string list \<Rightarrow>
   (string \<times> language_document) list" where
  "read_languages parse fs dir langs =
     foldl (\<lambda>m each. AList.update each
                        (read_document parse fs (join dir (''messages.'' @ each @ ''.json''))) m)
       [] langs"

text \<open>\<open>/[a-zA-Z]{2,}/.exec(key)\<close> finds a match.\<close>

fun two_letter_word :: "string \<Rightarrow> bool" where
  "two_letter_word (a # b # cs) = ((letter a \<and> letter b) \<or> two_letter_word (b # cs))"
| "two_letter_word s = False"

text \<open>\<open>.replace(/ [a-z]/g, ([a, b]) => b.toUpperCase())\<close>\<close>

fun camel :: "string \<Rightarrow> string" where
  "camel (a # b # cs) =
     (if a = CHR '' '' \<and> lowerLetter b then toUpperCase_char b # camel cs
      else a # camel (b # cs))"
| "camel s = s"

text \<open>
  \<open>key.trim().replace(/ [a-z]/g, ...).replace(/[^a-zA-Z$]/g, '')\<close>: the name of a key
  in the documents.
\<close>

definition document_name :: "string \<Rightarrow> string" where
  "document_name key = filter (\<lambda>c. letter c \<or> c = CHR ''$'') (camel (trim key))"

text \<open>
  The body of the loop \<open>for (const key in strings)\<close>, on the base object \<open>json\<close> and the
  map \<open>languages\<close>. The parameter notes that the loop puts together are not used afterwards
  and are left out.
\<close>

definition translate_missing ::
  "translator option \<Rightarrow> string \<Rightarrow> string \<Rightarrow> string \<Rightarrow> language_document \<Rightarrow> language_document" where
  "translate_missing azure nm lit lang doc =
     (if truthy (map_of (json doc) nm) then doc
      else (let (translated, comment) = Translate azure lit lang
            in if translated \<noteq> [] then doc\<lparr>json := obj_set nm translated (json doc)\<rparr>
               else doc))"

definition json_step ::
  "translator option \<Rightarrow> document \<times> (string \<times> language_document) list \<Rightarrow>
   string \<times> templateStringInfo \<Rightarrow> document \<times> (string \<times> language_document) list" where
  "json_step azure st entry =
     (let key = fst entry; base = fst st; languages = snd st
      in if \<not> two_letter_word key then st
         else (let lit = unquote (literal (snd entry)); nm = document_name key
               in if map_of base nm \<noteq> Some lit
                  then (if truthy (map_of base nm) then base else obj_set nm lit base,
                        map (\<lambda>(lang, doc). (lang, translate_missing azure nm lit lang doc))
                          languages)
                  else st))"

text \<open>The loop, started with the empty base object.\<close>

definition json_loop ::
  "translator option \<Rightarrow> (string \<times> language_document) list \<Rightarrow> string_table \<Rightarrow>
   document \<times> (string \<times> language_document) list" where
  "json_loop azure languages strings = foldl (json_step azure) ([], languages) strings"

text \<open>Writing a document when its new text differs from the text that was read.\<close>

definition write_if_changed ::
  "string \<Rightarrow> string \<Rightarrow> string \<Rightarrow> file_system \<times> string list \<Rightarrow> file_system \<times> string list" where
  "write_if_changed file old new st =
     (if new \<noteq> old then ((fst st)(file \<mapsto> new), snd st @ [file]) else st)"

text \<open>
  \<open>GenerateJSON\<close>: the result is the file system after the run and the files written, in
  the order of the calls of \<open>writeFile\<close>. The base object starts empty also when the base
  file exists; \<open>orig\<close> is the text of that file.
\<close>

definition GenerateJSON ::
  "(string \<Rightarrow> document option) \<Rightarrow> translator option \<Rightarrow> string \<Rightarrow> string \<Rightarrow> string list \<Rightarrow>
   string_table \<Rightarrow> file_system \<Rightarrow> file_system \<times> string list" where
  "GenerateJSON parse azure dir jsonName langs strings fs =
     (let languages = read_languages parse fs dir langs;
          baseFile = join dir jsonName;
          orig = (case fs baseFile of None \<Rightarrow> [] | Some text \<Rightarrow> text);
          (base, languages') = json_loop azure languages strings;
          st = write_if_changed baseFile orig (JSON_stringify base) (fs, [])
      in foldl (\<lambda>st (lang, doc).
                  write_if_changed (filename doc) (content doc) (JSON_stringify (json doc)) st)
           st languages')"

section \<open>main.ts: GenerateTS\<close>

text \<open>
  The translation files are the source files of the project under the output folder. A
  translation file is given by its path and, when it declares a variable \<open>map\<close>
  initialised with an object literal, the members of that literal; a property assignment
  is its name as \<open>getName\<close> returns it (the text of the name, quotes included) and the
  text of its initialiser. \<open>formatText\<close> changes the layout of a saved file only and is
  not modelled.
\<close>

datatype member = PropertyAssignment string string | OtherMember

record translation_file =
  path :: string
  map_initializer :: "member list option"













definition updatedFiles :: "(translation_file \<times> bool) list \<Rightarrow> nat" where
  "updatedFiles result = length (filter snd result)"


section \<open>The key as a function of the literal skeleton\<close>




section \<open>Example sources\<close>

text \<open>
  A project with the translator function in \<open>i18n.ts\<close>, a call of the template
  \<open>Total: ${count}\<close> with \<open>count\<close> of type \<open>number\<close>, and calls of the template
  \<open>Hello\<close> followed by a comment.
\<close>

definition hello_call :: "string \<Rightarrow> node" where
  "hello_call comment =
     TaggedTemplateExpression (Some (FunctionDeclaration (Some ''i'') ''/p/i18n.ts'')) ''string''
       [comment] (NoSubstitutionTemplateLiteral ([CHR 0x60] @ ''Hello'' @ [CHR 0x60]))"

definition i18n_file :: sourceFile where
  "i18n_file =
     \<lparr>filePath = ''/p/i18n.ts'',
      getFunctions = [(Some ''setLocale'', []),
                      (Some ''i'', [''/** Support for tagged template literals. @translator */''])],
      descendants = []\<rparr>"

definition total_call :: node where
  "total_call =
     TaggedTemplateExpression (Some (FunctionDeclaration (Some ''i'') ''/p/i18n.ts'')) ''string'' []
       (TemplateExpression ([CHR 0x60] @ ''Total: ${'')
          [(Identifier ''count'' (Symbol [''number'']) [], ''}'' @ [CHR 0x60])])"

definition total_file :: sourceFile where
  "total_file = \<lparr>filePath = ''/p/a.ts'', getFunctions = [], descendants = [OtherNode, total_call]\<rparr>"

definition total_strings :: string_table where
  "total_strings =
     [(''Total: ${0}'',
       \<lparr>literal = [CHR 0x60] @ ''Total: ${p0}'' @ [CHR 0x60],
        params = [\<lparr>param_name = ''p0'', param_type = ''number'', originalName = []\<rparr>],
        notesMap = [], specifiedKey = []\<rparr>)]"




section \<open>The document loop, document by document\<close>








section \<open>Repeated runs\<close>









section \<open>Properties of the command line\<close>











section \<open>Properties of the placeholder round trip\<close>









section \<open>Properties of objects\<close>

lemma map_of_obj_insert:
  "k \<notin> fst ` set ob \<Longrightarrow> map_of (obj_insert k v ob) = (map_of ob)(k \<mapsto> v)"
proof (induction ob)
  case Nil
  show ?case by simp
next
  case (Cons p ob)
  obtain k' v' where p: "p = (k', v')" by (cases p)
  from Cons.prems p have ne: "k \<noteq> k'" and notin: "k \<notin> fst ` set ob" by auto
  show ?case
    using Cons.IH[OF notin] ne p by (auto simp: fun_upd_twist)
qed

lemma map_of_obj_set: "map_of (obj_set k v ob) = (map_of ob)(k \<mapsto> v)"
  by (simp add: obj_set_def map_of_obj_insert update_conv')

lemma keys_obj_set_present: "k \<in> fst ` set ob \<Longrightarrow> map fst (obj_set k v ob) = map fst ob"
  by (simp add: obj_set_def update_keys)

lemma map_of_foldl_update:
  "map_of (foldl (\<lambda>m (nk, nv). AList.update nk nv m) m0 nts) = map_of m0 ++ map_of (rev nts)"
proof (induction nts arbitrary: m0)
  case Nil
  show ?case by simp
next
  case (Cons p nts)
  obtain nk nv where p: "p = (nk, nv)" by (cases p)
  have "map_of (foldl (\<lambda>m (nk, nv). AList.update nk nv m) m0 (p # nts))
      = map_of (AList.update nk nv m0) ++ map_of (rev nts)"
    using Cons.IH[of "AList.update nk nv m0"] p by simp
  also have "\<dots> = map_of m0 ++ map_of (rev (p # nts))"
    by (simp add: p update_conv' map_add_upd_left fun_eq_iff map_add_def split: option.splits)
  finally show ?case .
qed

lemma map_of_rev_distinct: "distinct (map fst xs) \<Longrightarrow> map_of (rev xs) = map_of xs"
  by (simp add: map_of_inject_set distinct_rev rev_map[symmetric])

section \<open>Properties of the string table\<close>

text \<open>
  C7, amended: when the key of a call is already in the table, \<open>track\<close> keeps the single
  record of that key with its literal, parameters and explicit key, and the notes become
  the union of both occurrences in which the note of the later occurrence replaces the
  earlier note of the same slot; the other records are untouched.
\<close>

theorem track_merges_notes:
  assumes "map_of strings (unquote key) = Some e" and "distinct (map fst nts)"
  shows "map fst (track key lit nts ps sk strings) = map fst strings \<and>
         (\<exists>e'. map_of (track key lit nts ps sk strings) (unquote key) = Some e' \<and>
               literal e' = literal e \<and> params e' = params e \<and> specifiedKey e' = specifiedKey e \<and>
               (\<forall>slot. map_of (notesMap e') slot =
                   (case map_of nts slot of Some v \<Rightarrow> Some v | None \<Rightarrow> map_of (notesMap e) slot))) \<and>
         (\<forall>k. k \<noteq> unquote key \<longrightarrow> map_of (track key lit nts ps sk strings) k = map_of strings k)"
proof -
  from assms(1) have "unquote key \<in> fst ` set strings"
    by (metis map_of_eq_None_iff option.distinct(1))
  then show ?thesis
    using assms
    by (simp add: track_def keys_obj_set_present map_of_obj_set map_of_foldl_update
        map_of_rev_distinct map_add_def)
qed


text \<open>
  C7, as stated, fails: of two calls of the same template, the call-level note of the
  second call replaces the note of the first.
\<close>

theorem track_later_note_counterexample:
  "scan_files False ''i'' None
     [\<lparr>filePath = ''/p/a.ts'', getFunctions = [],
       descendants = [hello_call ''// first'', hello_call ''// second'']\<rparr>]
   = [(''Hello'', \<lparr>literal = [CHR 0x60] @ ''Hello'' @ [CHR 0x60], params = [],
                    notesMap = [(''full'', ''second'')], specifiedKey = []\<rparr>)]"
  by code_simp

theorem track_merges_notes_witness:
  "map_of [(''Hello'', \<lparr>literal = ''Hello'', params = [], notesMap = [(''full'', ''first'')],
                        specifiedKey = []\<rparr>)] (unquote ''Hello'')
     = Some \<lparr>literal = ''Hello'', params = [], notesMap = [(''full'', ''first'')], specifiedKey = []\<rparr> \<and>
   distinct (map fst [(''full'', ''second'')]) \<and>
   map fst (track ''Hello'' ''Hello'' [(''full'', ''second'')] [] []
     [(''Hello'', \<lparr>literal = ''Hello'', params = [], notesMap = [(''full'', ''first'')],
                   specifiedKey = []\<rparr>)])
     = [''Hello'']"
proof -
  let ?e = "\<lparr>literal = ''Hello'', params = [], notesMap = [(''full'', ''first'')], specifiedKey = []\<rparr>"
  have h1: "map_of [(''Hello'', ?e)] (unquote ''Hello'') = Some ?e"
    by (simp add: unquote_def startsWith_def)
  have h2: "distinct (map fst [(''full'', ''second'')])" by simp
  show ?thesis
    using h1 h2 track_merges_notes[OF h1 h2, of "''Hello''" "[]" "[]"] by simp
qed

section \<open>Properties of the scanner\<close>








lemma scan_total:
  "ScanSources True [i18n_file, total_file] [i18n_file, total_file] = Inr (False, total_strings)"
  by code_simp

lemmas document_eval =
  GenerateJSON_def json_loop_def read_languages_def join_def json_step_def document_name_def
  trim_def whiteSpace_def letter_def lowerLetter_def upperLetter_def unquote_def startsWith_def
  endsWith_def substr_def truthy_def obj_set_def arrayIndex_def digit_def write_if_changed_def
  JSON_stringify_def JSON_quote_def JSON_escape_def Let_def toUpperCase_char_def

lemma generate_total:
  "fst (GenerateJSON parse azure ''/p/locales'' ''messages.json'' [] total_strings fs)
     ''/p/locales/messages.json'' = Some (JSON_stringify [(''Total$'', ''Total: ${p0}'')])"
  by (auto simp: total_strings_def document_eval split: option.splits)

text \<open>
  C9, as stated, fails: the identifier derived for the key of \<open>Total: ${count}\<close> is not
  \<open>TotalCount\<close>, and the base document does not hold the positional text under it.
\<close>

theorem total_document_counterexample:
  "ScanSources True [i18n_file, total_file] [i18n_file, total_file] = Inr (False, total_strings) \<and>
   document_name ''Total: ${0}'' \<noteq> ''TotalCount'' \<and>
   fst (GenerateJSON (\<lambda>text. None) None ''/p/locales'' ''messages.json'' [] total_strings Map.empty)
     ''/p/locales/messages.json'' \<noteq> Some (JSON_stringify [(''TotalCount'', ''Total: ${0}'')])"
proof -
  have "document_name ''Total: ${0}'' \<noteq> ''TotalCount''"
    by (simp add: document_eval)
  moreover have "JSON_stringify [(''Total$'', ''Total: ${p0}'')]
      \<noteq> JSON_stringify [(''TotalCount'', ''Total: ${0}'')]"
    by (simp add: document_eval)
  ultimately show ?thesis
    using scan_total generate_total[of "\<lambda>text. None" None Map.empty] by simp
qed

text \<open>
  C9, amended: with the switch \<open>json\<close> set, the template \<open>Total: ${count}\<close> is recorded
  under the key \<open>Total: ${0}\<close> with the parameter \<open>p0\<close> of type \<open>number\<close>; the
  identifier derived from the key is \<open>Total$\<close> (a lower-case letter after a space is put in
  upper case, every character other than a letter or \<open>$\<close> is removed) and the base document
  maps it to \<open>Total: ${p0}\<close>.
\<close>

theorem total_document:
  "ScanSources True [i18n_file, total_file] [i18n_file, total_file] = Inr (False, total_strings) \<and>
   map fst total_strings = [''Total: ${0}''] \<and>
   document_name ''Total: ${0}'' = ''Total$'' \<and>
   fst (json_loop azure [] total_strings) = [(''Total$'', ''Total: ${p0}'')] \<and>
   fst (GenerateJSON parse azure ''/p/locales'' ''messages.json'' [] total_strings fs)
     ''/p/locales/messages.json'' = Some (JSON_stringify [(''Total$'', ''Total: ${p0}'')])"
proof -
  have "document_name ''Total: ${0}'' = ''Total$''"
    by (simp add: document_eval)
  moreover have "fst (json_loop azure [] total_strings) = [(''Total$'', ''Total: ${p0}'')]"
    by (simp add: total_strings_def document_eval)
  ultimately show ?thesis
    using scan_total generate_total[of parse azure fs] by (simp add: total_strings_def)
qed

section \<open>Properties of the scanner: the translator function\<close>






section \<open>Properties of the explicit key\<close>












section \<open>Properties of the generators\<close>


















section \<open>Properties of the merge\<close>





section \<open>Properties of repeated runs: modules\<close>














section \<open>Properties of repeated runs: documents\<close>

































end
